theory Spec2Isabelle
  imports Main "HOL-Library.Char_ord" "HOL-Library.List_Lexorder"
begin

section \<open>Go values shared by both packages\<close>

text \<open>
  A Go \<open>error\<close> is either \<open>nil\<close> (\<open>None\<close> of \<open>error option\<close>) or a value. The
  only error the sources build themselves is the one \<open>errors.Join\<close> returns, which keeps
  the non-nil errors it was given, in argument order; every other error comes from a
  collaborator and is opaque, distinguished here by its message.
\<close>

datatype error = errorString string | joinError "error list"

text \<open>
  \<open>errors.Join\<close> of the Go standard library: \<open>nil\<close> when every argument is \<open>nil\<close>,
  otherwise a \<open>joinError\<close> holding the non-nil arguments in order.
\<close>

definition errors_Join :: "error option list \<Rightarrow> error option" where
  "errors_Join errs =
     (if List.map_filter id errs = [] then None
      else Some (joinError (List.map_filter id errs)))"

section \<open>Tag reconciliation (package neutrontags)\<close>

text \<open>
  Modelled from the spec: the package \<open>progress\<close> with \<open>ReconcileStatus\<close>,
  \<open>NeedsRefresh\<close> and \<open>WrapError\<close> is not among the sources. The spec's ProgressStatus is
  the result of one reconcile attempt: Done (the Go \<open>nil\<close> status),
  WaitingForDependency(name, reason), NeedsRefresh, or a status that carries an error.
  Whether a carried error counts as transient or terminal is decided from the error
  itself by the reconcile controller, so one constructor holds both.
\<close>

datatype ReconcileStatus =
    Done
  | WaitingForDependency string string
  | NeedsRefresh
  | ErrorStatus error

definition WrapError :: "error \<Rightarrow> ReconcileStatus" where
  "WrapError err = ErrorStatus err"

text \<open>
  \<open>osclients.NetworkClient\<close> is an interface; the only method \<open>ReconcileTags\<close> uses is
  \<open>ReplaceAllAttributesTags(ctx, resourceType, resourceID, opts)\<close>. The client is
  modelled as the calls it has received so far together with its behaviour: what it
  answers (the tags it reports and an error or \<open>nil\<close>) to a call, given the calls before.
\<close>

record ReplaceAllCall =
  resourceType :: string
  resourceID :: string
  Tags :: "string list"

record NetworkClient =
  calls :: "ReplaceAllCall list"
  respond :: "ReplaceAllCall list \<Rightarrow> ReplaceAllCall \<Rightarrow> string list \<times> error option"

definition ReplaceAllAttributesTags ::
  "NetworkClient \<Rightarrow> string \<Rightarrow> string \<Rightarrow> string list
     \<Rightarrow> (string list \<times> error option) \<times> NetworkClient" where
  "ReplaceAllAttributesTags c rt rid opts =
     (let call = \<lparr>resourceType = rt, resourceID = rid, Tags = opts\<rparr>
      in (respond c (calls c) call, c\<lparr>calls := calls c @ [call]\<rparr>))"

text \<open>
  \<open>k8s.io/utils/set\<close>: \<open>set.New(items...)\<close> is the set of the items, \<open>Insert\<close> adds one
  element, \<open>Equal\<close> is set equality and \<open>SortedList\<close> lists the elements in ascending
  order. Go compares strings byte by byte, a proper prefix first: the lexicographic
  order on \<open>char list\<close>.
\<close>

definition set_New :: "string list \<Rightarrow> string set" where
  "set_New items = set items"

definition SortedList :: "string set \<Rightarrow> string list" where
  "SortedList s = sorted_list_of_set s"

text \<open>
  \<open>ReconcileTags\<close> returns a closure; the model is the closure applied, returning its
  status and the client after the call. The \<open>for\<close> loop inserting each spec tag is the
  \<open>fold\<close>.
\<close>

definition ReconcileTags ::
  "NetworkClient \<Rightarrow> string \<Rightarrow> string \<Rightarrow> string list \<Rightarrow> string list
     \<Rightarrow> ReconcileStatus \<times> NetworkClient" where
  "ReconcileTags networkClient rt rid specTags observedTags =
     (let observedTagSet = set_New observedTags;
          specTagSet = fold Set.insert specTags {}
      in if specTagSet \<noteq> observedTagSet then
           (let opts = SortedList specTagSet;
                (res, networkClient') = ReplaceAllAttributesTags networkClient rt rid opts
            in case snd res of
                 Some err \<Rightarrow> (WrapError err, networkClient')
               | None \<Rightarrow> (NeedsRefresh, networkClient'))
         else (Done, networkClient))"

text \<open>The call \<open>ReconcileTags\<close> sends when it sends one.\<close>

definition replaceCall :: "string \<Rightarrow> string \<Rightarrow> string list \<Rightarrow> ReplaceAllCall" where
  "replaceCall rt rid specTags =
     \<lparr>resourceType = rt, resourceID = rid, Tags = sorted_list_of_set (set specTags)\<rparr>"

text \<open>A client that has received no call and answers every call with success.\<close>

definition okClient :: NetworkClient where
  "okClient = \<lparr>calls = [], respond = (\<lambda>_ _. ([], None))\<rparr>"

text \<open>A client that has received no call and fails every call.\<close>

definition failingClient :: NetworkClient where
  "failingClient = \<lparr>calls = [], respond = (\<lambda>_ _. ([], Some (errorString ''503'')))\<rparr>"

section \<open>The port controller (package port)\<close>

subsection \<open>The API types the extractors read\<close>

text \<open>
  The fields of \<open>orcv1alpha1.Port\<close> that \<open>controller.go\<close> reads. A Go pointer that may
  be \<open>nil\<close> is an \<open>option\<close>; a name reference (\<open>KubernetesNameRef\<close>) is a string. The two
  fields of the import filter carry the prefix \<open>Filter_\<close>, since a record field is a
  constant of its own.
\<close>

record Address =
  SubnetRef :: string

record PortResourceSpec =
  NetworkRef :: string
  Addresses :: "Address list"
  SecurityGroupRefs :: "string list"
  ProjectRef :: "string option"

record PortFilter =
  Filter_NetworkRef :: string
  Filter_ProjectRef :: "string option"

record PortImport =
  Filter :: "PortFilter option"

record PortSpec =
  Resource :: "PortResourceSpec option"
  Import :: "PortImport option"

record Port =
  Namespace :: string
  Name :: string
  Spec :: PortSpec

datatype Kind = PortKind | NetworkKind | SubnetKind | SecurityGroupKind | ProjectKind | SecretKind

subsection \<open>Dependency relations\<close>

text \<open>
  Modelled from the spec: the package \<open>dependency\<close> with \<open>NewDependency\<close> and
  \<open>NewDeletionGuardDependency\<close> is not among the sources. The spec's DependencyRelation
  is an immutable descriptor: an index name, an extractor from a Source to the list of
  Target names it references, and optional guard tokens (finalizer name and owner
  identity) when deletion protection is required. The Target kind is the second type
  argument of the Go constructor.
\<close>

record Dependency =
  indexName :: string
  targetKind :: Kind
  getDependencyRefs :: "Port \<Rightarrow> string list"
  guardTokens :: "(string \<times> string) option"

definition NewDependency :: "Kind \<Rightarrow> string \<Rightarrow> (Port \<Rightarrow> string list) \<Rightarrow> Dependency" where
  "NewDependency k n extract =
     \<lparr>indexName = n, targetKind = k, getDependencyRefs = extract, guardTokens = None\<rparr>"

definition NewDeletionGuardDependency ::
  "Kind \<Rightarrow> string \<Rightarrow> (Port \<Rightarrow> string list) \<Rightarrow> string \<Rightarrow> string \<Rightarrow> Dependency" where
  "NewDeletionGuardDependency k n extract fin owner =
     \<lparr>indexName = n, targetKind = k, getDependencyRefs = extract,
      guardTokens = Some (fin, owner)\<rparr>"

text \<open>
  The six relations of \<open>controller.go\<close>. The package constants \<open>finalizer\<close> and
  \<open>externalObjectFieldOwner\<close> are declared in a file that is not among the sources, so
  the guarded relations take them as arguments. A Go \<open>nil\<close> slice is the empty list.
  The two loops fill a slice made with \<open>make([]string, n)\<close> (\<open>n\<close> empty strings) index
  by index.
\<close>

definition networkDependency :: "string \<Rightarrow> string \<Rightarrow> Dependency" where
  "networkDependency finalizer externalObjectFieldOwner =
     NewDeletionGuardDependency NetworkKind ''spec.resource.networkRef''
       (\<lambda>port. case Resource (Spec port) of
                  None \<Rightarrow> []
                | Some resource \<Rightarrow> [NetworkRef resource])
       finalizer externalObjectFieldOwner"

definition networkImportDependency :: Dependency where
  "networkImportDependency =
     NewDependency NetworkKind ''spec.import.filter.networkRef''
       (\<lambda>port. case Import (Spec port) of
                  None \<Rightarrow> []
                | Some resource \<Rightarrow>
                    (case Filter resource of
                       None \<Rightarrow> []
                     | Some f \<Rightarrow> [Filter_NetworkRef f]))"

definition subnetDependency :: "string \<Rightarrow> string \<Rightarrow> Dependency" where
  "subnetDependency finalizer externalObjectFieldOwner =
     NewDeletionGuardDependency SubnetKind ''spec.resource.addresses[].subnetRef''
       (\<lambda>port. case Resource (Spec port) of
                  None \<Rightarrow> []
                | Some resource \<Rightarrow>
                    fold (\<lambda>i subnets. subnets[i := SubnetRef (Addresses resource ! i)])
                      [0..<length (Addresses resource)]
                      (replicate (length (Addresses resource)) []))
       finalizer externalObjectFieldOwner"

definition securityGroupDependency :: "string \<Rightarrow> string \<Rightarrow> Dependency" where
  "securityGroupDependency finalizer externalObjectFieldOwner =
     NewDeletionGuardDependency SecurityGroupKind ''spec.resource.securityGroupRefs''
       (\<lambda>port. case Resource (Spec port) of
                  None \<Rightarrow> []
                | Some resource \<Rightarrow>
                    fold (\<lambda>i securityGroups.
                            securityGroups[i := SecurityGroupRefs resource ! i])
                      [0..<length (SecurityGroupRefs resource)]
                      (replicate (length (SecurityGroupRefs resource)) []))
       finalizer externalObjectFieldOwner"

definition projectDependency :: "string \<Rightarrow> string \<Rightarrow> Dependency" where
  "projectDependency finalizer externalObjectFieldOwner =
     NewDeletionGuardDependency ProjectKind ''spec.resource.projectRef''
       (\<lambda>port. case Resource (Spec port) of
                  None \<Rightarrow> []
                | Some resource \<Rightarrow>
                    (case ProjectRef resource of
                       None \<Rightarrow> []
                     | Some ref \<Rightarrow> [ref]))
       finalizer externalObjectFieldOwner"

definition projectImportDependency :: Dependency where
  "projectImportDependency =
     NewDependency ProjectKind ''spec.import.filter.projectRef''
       (\<lambda>port. case Import (Spec port) of
                  None \<Rightarrow> []
                | Some resource \<Rightarrow>
                    (case Filter resource of
                       None \<Rightarrow> []
                     | Some f \<Rightarrow>
                         (case Filter_ProjectRef f of
                            None \<Rightarrow> []
                          | Some ref \<Rightarrow> [ref])))"

subsection \<open>Watches, predicates and the controller builder\<close>

text \<open>
  Modelled from the spec: \<open>Dependency.WatchEventHandler\<close> is not among the sources.
  The spec's \<open>watchEventHandler(relation)\<close> returns a handler that, on a Target event,
  queries the relation's index and emits one ReconcileRequest per matching Source: a
  handler is the handler of its relation.
\<close>

datatype EventHandler = HandlerFor Dependency

text \<open>
  Modelled from the spec: the package \<open>predicates\<close> with \<open>NewBecameAvailable\<close> is not
  among the sources. The predicate is built for a specimen object of the watched kind.
\<close>

datatype Predicate = BecameAvailable Kind

text \<open>
  The controller-runtime builder: \<open>For\<close> names the reconciled kind and each \<open>Watches\<close>
  appends a watched kind with its handler and the predicates of \<open>builder.WithPredicates\<close>.
  \<open>controller.Options\<close> is passed through unread; its one field here is the maximum
  concurrency per resource kind of the spec.
\<close>

record Options =
  MaxConcurrentReconciles :: nat

record WatchInput =
  object :: Kind
  handler :: EventHandler
  predicates :: "Predicate list"

record Builder =
  ctrlOptions :: "Options option"
  forInput :: "Kind option"
  watchesInput :: "WatchInput list"

definition NewControllerManagedBy :: Builder where
  "NewControllerManagedBy = \<lparr>ctrlOptions = None, forInput = None, watchesInput = []\<rparr>"

definition WithOptions :: "Options \<Rightarrow> Builder \<Rightarrow> Builder" where
  "WithOptions options b = b\<lparr>ctrlOptions := Some options\<rparr>"

definition For :: "Kind \<Rightarrow> Builder \<Rightarrow> Builder" where
  "For k b = b\<lparr>forInput := Some k\<rparr>"

definition Watches :: "Kind \<Rightarrow> EventHandler \<Rightarrow> Predicate list \<Rightarrow> Builder \<Rightarrow> Builder" where
  "Watches k h ps b =
     b\<lparr>watchesInput := watchesInput b @ [\<lparr>object = k, handler = h, predicates = ps\<rparr>]\<rparr>"

text \<open>
  Lines 167 to 189 of \<open>controller.go\<close>: the builder \<open>SetupWithManager\<close> assembles from
  the six handlers, in the order of the \<open>Watches\<close> calls.
\<close>

definition portBuilder ::
  "Options \<Rightarrow> EventHandler \<Rightarrow> EventHandler \<Rightarrow> EventHandler \<Rightarrow> EventHandler
     \<Rightarrow> EventHandler \<Rightarrow> EventHandler \<Rightarrow> Builder" where
  "portBuilder options networkWatchEventHandler networkImportWatchEventHandler
       subnetWatchEventHandler securityGroupWatchEventHandler
       projectWatchEventHandler projectImportWatchEventHandler =
     (Watches ProjectKind projectImportWatchEventHandler [BecameAvailable ProjectKind]
     (Watches ProjectKind projectWatchEventHandler [BecameAvailable ProjectKind]
     (Watches SecurityGroupKind securityGroupWatchEventHandler
        [BecameAvailable SecurityGroupKind]
     (Watches SubnetKind subnetWatchEventHandler [BecameAvailable SubnetKind]
     (Watches NetworkKind networkImportWatchEventHandler [BecameAvailable NetworkKind]
     (Watches NetworkKind networkWatchEventHandler [BecameAvailable NetworkKind]
     (For PortKind
     (WithOptions options NewControllerManagedBy))))))))"

subsection \<open>SetupWithManager\<close>

text \<open>
  What \<open>SetupWithManager\<close> takes from outside \<open>controller.go\<close>: the package values
  \<open>finalizer\<close>, \<open>externalObjectFieldOwner\<close> and \<open>credentialsDependency\<close>, and the
  collaborators it calls. The manager is a state \<open>'m\<close> that \<open>AddToManager\<close> and
  \<open>Complete\<close> read and change; \<open>AddCredentialsWatch\<close> receives the builder pointer and
  may add to it. \<open>handlerError\<close> is the error result of a relation's
  \<open>WatchEventHandler\<close> (\<open>None\<close> for \<open>nil\<close>).
\<close>

record 'm Env =
  finalizer :: string
  externalObjectFieldOwner :: string
  credentialsDependency :: Dependency
  handlerError :: "Dependency \<Rightarrow> error option"
  AddToManager :: "Dependency \<Rightarrow> 'm \<Rightarrow> error option \<times> 'm"
  AddCredentialsWatch :: "Builder \<Rightarrow> Dependency \<Rightarrow> error option \<times> Builder"
  Complete :: "Builder \<Rightarrow> 'm \<Rightarrow> error option \<times> 'm"

definition WatchEventHandler :: "'m Env \<Rightarrow> Dependency \<Rightarrow> error + EventHandler" where
  "WatchEventHandler env d =
     (case handlerError env d of
        Some err \<Rightarrow> Inl err
      | None \<Rightarrow> Inr (HandlerFor d))"

text \<open>
  \<open>SetupWithManager\<close> returns its error (\<open>None\<close> for \<open>nil\<close>) and the manager as it
  leaves it. Each \<open>if err != nil { return err }\<close> is a branch; Go evaluates the
  arguments of \<open>errors.Join\<close> from left to right before the call, so all eight
  registrations run, each on the manager the one before left.
\<close>

definition SetupWithManager :: "'m Env \<Rightarrow> Options \<Rightarrow> 'm \<Rightarrow> error option \<times> 'm" where
  "SetupWithManager env options mgr =
     (let fin = finalizer env; own = externalObjectFieldOwner env in
      case WatchEventHandler env (networkDependency fin own) of
        Inl err \<Rightarrow> (Some err, mgr)
      | Inr networkWatchEventHandler \<Rightarrow>
      case WatchEventHandler env networkImportDependency of
        Inl err \<Rightarrow> (Some err, mgr)
      | Inr networkImportWatchEventHandler \<Rightarrow>
      case WatchEventHandler env (subnetDependency fin own) of
        Inl err \<Rightarrow> (Some err, mgr)
      | Inr subnetWatchEventHandler \<Rightarrow>
      case WatchEventHandler env (securityGroupDependency fin own) of
        Inl err \<Rightarrow> (Some err, mgr)
      | Inr securityGroupWatchEventHandler \<Rightarrow>
      case WatchEventHandler env (projectDependency fin own) of
        Inl err \<Rightarrow> (Some err, mgr)
      | Inr projectWatchEventHandler \<Rightarrow>
      case WatchEventHandler env projectImportDependency of
        Inl err \<Rightarrow> (Some err, mgr)
      | Inr projectImportWatchEventHandler \<Rightarrow>
      (let builder = portBuilder options networkWatchEventHandler
             networkImportWatchEventHandler subnetWatchEventHandler
             securityGroupWatchEventHandler projectWatchEventHandler
             projectImportWatchEventHandler;
           (e1, m1) = AddToManager env (networkDependency fin own) mgr;
           (e2, m2) = AddToManager env networkImportDependency m1;
           (e3, m3) = AddToManager env (subnetDependency fin own) m2;
           (e4, m4) = AddToManager env (securityGroupDependency fin own) m3;
           (e5, m5) = AddToManager env (projectDependency fin own) m4;
           (e6, m6) = AddToManager env projectImportDependency m5;
           (e7, m7) = AddToManager env (credentialsDependency env) m6;
           (e8, builder') = AddCredentialsWatch env builder (credentialsDependency env)
       in case errors_Join [e1, e2, e3, e4, e5, e6, e7, e8] of
            Some err \<Rightarrow> (Some err, m7)
          | None \<Rightarrow> Complete env builder' m7))"

text \<open>
  The builder of a run in which every handler was built: \<open>portBuilder\<close> on the handlers
  of the six relations.
\<close>

definition portControllerBuilder :: "string \<Rightarrow> string \<Rightarrow> Options \<Rightarrow> Builder" where
  "portControllerBuilder fin own options =
     portBuilder options
       (HandlerFor (networkDependency fin own))
       (HandlerFor networkImportDependency)
       (HandlerFor (subnetDependency fin own))
       (HandlerFor (securityGroupDependency fin own))
       (HandlerFor (projectDependency fin own))
       (HandlerFor projectImportDependency)"

text \<open>
  Modelled from the spec: a manager for trying \<open>SetupWithManager\<close> out. The spec's
  \<open>registerIndex(kind, indexName, extractorFn)\<close> fails on a duplicate index name; the
  manager is the list of index names registered so far. The credentials relation, the
  credentials watch and \<open>Complete\<close> succeed.
\<close>

definition registerIndex :: "Dependency \<Rightarrow> string list \<Rightarrow> error option \<times> string list" where
  "registerIndex d names =
     (if indexName d \<in> set names
      then (Some (errorString (''duplicate index '' @ indexName d)), names)
      else (None, names @ [indexName d]))"

definition indexEnv :: "string list Env" where
  "indexEnv =
     \<lparr>finalizer = ''openstack.k-orc.cloud/port'',
      externalObjectFieldOwner = ''openstack.k-orc.cloud/portcontroller'',
      credentialsDependency =
        NewDependency SecretKind ''spec.cloudCredentialsRef.secretName'' (\<lambda>_. []),
      handlerError = (\<lambda>_. None),
      AddToManager = registerIndex,
      AddCredentialsWatch = (\<lambda>b _. (None, b)),
      Complete = (\<lambda>_ names. (None, names))\<rparr>"

text \<open>
  A manager that keeps the builders handed to \<open>Complete\<close>, in order: every handler is
  built, every registration succeeds, the credentials watch leaves the builder as it
  is, and \<open>Complete\<close> stores the builder it receives.
\<close>

definition recordingEnv :: "Builder list Env" where
  "recordingEnv =
     \<lparr>finalizer = ''openstack.k-orc.cloud/port'',
      externalObjectFieldOwner = ''openstack.k-orc.cloud/portcontroller'',
      credentialsDependency =
        NewDependency SecretKind ''spec.cloudCredentialsRef.secretName'' (\<lambda>_. []),
      handlerError = (\<lambda>_. None),
      AddToManager = (\<lambda>_ completed. (None, completed)),
      AddCredentialsWatch = (\<lambda>b _. (None, b)),
      Complete = (\<lambda>b completed. (None, completed @ [b]))\<rparr>"

subsection \<open>Routing Target updates to Ports\<close>

text \<open>
  Modelled from the spec: a Target is a ManagedObject of some kind with a name and a set
  of conditions, notably \<open>Available\<close>, each True, False or Unknown (or absent).
\<close>

datatype ConditionStatus = ConditionTrue | ConditionFalse | ConditionUnknown

record Target =
  kind :: Kind
  targetName :: string
  conditions :: "string \<rightharpoonup> ConditionStatus"

definition IsAvailable :: "Target \<Rightarrow> bool" where
  "IsAvailable t = (conditions t ''Available'' = Some ConditionTrue)"

text \<open>
  Modelled from the spec: the became-Available predicate forwards an update event only
  when the Target's \<open>Available\<close> condition goes from not-True to True. The spec's
  other forwarding case, a deletion-relevant transition, is the wake-up of a Target
  waiting for its guards to be released; it is no part of this predicate.
\<close>

fun predicateUpdate :: "Predicate \<Rightarrow> Target \<Rightarrow> Target \<Rightarrow> bool" where
  "predicateUpdate (BecameAvailable k) objectOld objectNew =
     (\<not> IsAvailable objectOld \<and> IsAvailable objectNew)"

text \<open>
  Modelled from the spec: a ReconcileRequest is (kind, namespace, name); the handler of
  a relation emits one request per Source whose extractor output includes the Target's
  name.
\<close>

record ReconcileRequest =
  reqKind :: Kind
  reqNamespace :: string
  reqName :: string

fun handlerRequests :: "EventHandler \<Rightarrow> Port list \<Rightarrow> Target \<Rightarrow> ReconcileRequest list" where
  "handlerRequests (HandlerFor d) ports t =
     map (\<lambda>p. \<lparr>reqKind = PortKind, reqNamespace = Namespace p, reqName = Name p\<rparr>)
       (filter (\<lambda>p. targetName t \<in> set (getDependencyRefs d p)) ports)"

text \<open>
  An update event of a Target reaches the watches of its kind; a watch hands it to its
  handler only when every predicate of the watch passes it (controller-runtime).
\<close>

definition routeUpdate ::
  "Builder \<Rightarrow> Port list \<Rightarrow> Target \<Rightarrow> Target \<Rightarrow> ReconcileRequest list" where
  "routeUpdate b ports objectOld objectNew =
     concat (map (\<lambda>w. if object w = kind objectNew
                           \<and> list_all (\<lambda>p. predicateUpdate p objectOld objectNew) (predicates w)
                        then handlerRequests (handler w) ports objectNew
                        else [])
               (watchesInput b))"

subsection \<open>Guard tokens\<close>

text \<open>
  Modelled from the spec: the deletion guard of the package \<open>dependency\<close> is not among
  the sources. A guarded Target carries finalizer tokens and GuardRecords, one per
  (token, owner identity, Source) holding a guard. Attaching adds the relation's record
  and its token; releasing removes the record and drops the token only when no record
  under that token remains. Both act through the relation's guard tokens, so a relation
  without them has nothing to attach or release.
\<close>

record Guarded =
  Finalizers :: "string set"
  GuardRecords :: "(string \<times> string \<times> string) set"

definition attachGuard :: "Dependency \<Rightarrow> string \<Rightarrow> Guarded \<Rightarrow> Guarded" where
  "attachGuard d source t =
     (case guardTokens d of
        None \<Rightarrow> t
      | Some (fin, owner) \<Rightarrow>
          t\<lparr>Finalizers := insert fin (Finalizers t),
            GuardRecords := insert (fin, owner, source) (GuardRecords t)\<rparr>)"

definition releaseGuard :: "Dependency \<Rightarrow> string \<Rightarrow> Guarded \<Rightarrow> Guarded" where
  "releaseGuard d source t =
     (case guardTokens d of
        None \<Rightarrow> t
      | Some (fin, owner) \<Rightarrow>
          (let records = GuardRecords t - {(fin, owner, source)}
           in t\<lparr>Finalizers :=
                   (if fin \<in> fst ` records then Finalizers t else Finalizers t - {fin}),
                 GuardRecords := records\<rparr>))"

subsection \<open>Sample Ports\<close>

text \<open>A Port with neither a resource spec nor an import.\<close>

definition emptyPort :: Port where
  "emptyPort =
     \<lparr>Namespace = ''default'', Name = ''port-0'',
      Spec = \<lparr>Resource = None, Import = None\<rparr>\<rparr>"

text \<open>A Port that imports without a filter (by ID).\<close>

definition importByIDPort :: Port where
  "importByIDPort =
     \<lparr>Namespace = ''default'', Name = ''port-1'',
      Spec = \<lparr>Resource = None, Import = Some \<lparr>Filter = None\<rparr>\<rparr>\<rparr>"

text \<open>A Port on network \<open>net-a\<close> with two addresses and two security groups.\<close>

definition samplePort :: Port where
  "samplePort =
     \<lparr>Namespace = ''default'', Name = ''port-2'',
      Spec = \<lparr>Resource = Some
                \<lparr>NetworkRef = ''net-a'',
                 Addresses = [\<lparr>SubnetRef = ''subnet-b''\<rparr>, \<lparr>SubnetRef = ''subnet-a''\<rparr>],
                 SecurityGroupRefs = [''sg-2'', ''sg-1''],
                 ProjectRef = None\<rparr>,
              Import = None\<rparr>\<rparr>"

text \<open>A Network object named \<open>n\<close> whose only condition is \<open>Available\<close>, if any.\<close>

definition networkTarget :: "string \<Rightarrow> ConditionStatus option \<Rightarrow> Target" where
  "networkTarget n available =
     \<lparr>kind = NetworkKind, targetName = n,
      conditions = (\<lambda>c. if c = ''Available'' then available else None)\<rparr>"

section \<open>Properties of tag reconciliation\<close>

lemma fold_insert_set: "fold Set.insert xs A = set xs \<union> A"
  by (induction xs arbitrary: A) auto

lemma ReconcileTags_equal:
  "set specTags = set observedTags \<Longrightarrow>
   ReconcileTags c rt rid specTags observedTags = (Done, c)"
  by (simp add: ReconcileTags_def set_New_def fold_insert_set)

lemma ReconcileTags_differ:
  "set specTags \<noteq> set observedTags \<Longrightarrow>
   ReconcileTags c rt rid specTags observedTags =
     (case snd (respond c (calls c) (replaceCall rt rid specTags)) of
        Some err \<Rightarrow> WrapError err
      | None \<Rightarrow> NeedsRefresh,
      c\<lparr>calls := calls c @ [replaceCall rt rid specTags]\<rparr>)"
  by (simp add: ReconcileTags_def set_New_def fold_insert_set SortedList_def
      ReplaceAllAttributesTags_def replaceCall_def Let_def split: option.splits)

text \<open>
  C1. When the desired and the observed tag lists have the same underlying set (order
  and duplicates ignored), \<open>ReconcileTags\<close> returns the success status and leaves the
  client as it was: \<open>ReplaceAllAttributesTags\<close> received no call.
\<close>

theorem C1_equal_sets_no_call:
  "set specTags = set observedTags \<Longrightarrow>
   fst (ReconcileTags c rt rid specTags observedTags) = Done
   \<and> snd (ReconcileTags c rt rid specTags observedTags) = c
   \<and> calls (snd (ReconcileTags c rt rid specTags observedTags)) = calls c"
  by (simp add: ReconcileTags_equal)

theorem C1_equal_sets_no_call_witness:
  "set [''a'', ''b''] = set [''b'', ''a'', ''a'']
   \<and> fst (ReconcileTags okClient ''networks'' ''id-1'' [''a'', ''b''] [''b'', ''a'', ''a'']) = Done
   \<and> calls (snd (ReconcileTags okClient ''networks'' ''id-1'' [''a'', ''b''] [''b'', ''a'', ''a''])) = []"
proof -
  have h: "set [''a'', ''b''] = set [''b'', ''a'', ''a'']" by code_simp
  have "calls okClient = []" by (simp add: okClient_def)
  with h C1_equal_sets_no_call [OF h, of okClient "''networks''" "''id-1''"]
  show ?thesis by simp
qed

text \<open>
  C2. When the underlying sets differ, \<open>ReconcileTags\<close> sends exactly one
  \<open>ReplaceAllAttributesTags\<close> call. Its tags are the desired set in ascending order
  without duplicates, so the call is the same for any other ordering or duplication of
  the desired and the observed list; when the client answers without error the status is
  \<open>NeedsRefresh\<close>.
\<close>

theorem C2_differ_one_sorted_call:
  "set specTags \<noteq> set observedTags \<Longrightarrow>
   set specTags' = set specTags \<Longrightarrow> set observedTags' = set observedTags \<Longrightarrow>
   calls (snd (ReconcileTags c rt rid specTags observedTags))
     = calls c @ [replaceCall rt rid specTags]
   \<and> calls (snd (ReconcileTags c rt rid specTags' observedTags'))
     = calls c @ [replaceCall rt rid specTags]
   \<and> Tags (replaceCall rt rid specTags) = sorted_list_of_set (set specTags)
   \<and> sorted (Tags (replaceCall rt rid specTags))
   \<and> distinct (Tags (replaceCall rt rid specTags))
   \<and> set (Tags (replaceCall rt rid specTags)) = set specTags
   \<and> (snd (respond c (calls c) (replaceCall rt rid specTags)) = None \<longrightarrow>
        fst (ReconcileTags c rt rid specTags observedTags) = NeedsRefresh
        \<and> fst (ReconcileTags c rt rid specTags' observedTags') = NeedsRefresh)"
proof -
  assume d: "set specTags \<noteq> set observedTags"
    and s: "set specTags' = set specTags" and ob: "set observedTags' = set observedTags"
  from d s ob have d': "set specTags' \<noteq> set observedTags'" by simp
  have same: "replaceCall rt rid specTags' = replaceCall rt rid specTags"
    by (simp add: replaceCall_def s)
  show ?thesis
    using ReconcileTags_differ [OF d, of c rt rid] ReconcileTags_differ [OF d', of c rt rid]
    by (simp add: same) (simp add: replaceCall_def)
qed

theorem C2_differ_one_sorted_call_witness:
  "set [''c'', ''a'', ''c''] \<noteq> set [''a'', ''b'']
   \<and> set [''a'', ''c''] = set [''c'', ''a'', ''c'']
   \<and> set [''b'', ''a''] = set [''a'', ''b'']
   \<and> calls (snd (ReconcileTags okClient ''ports'' ''id-1'' [''c'', ''a'', ''c''] [''a'', ''b'']))
       = [\<lparr>resourceType = ''ports'', resourceID = ''id-1'', Tags = [''a'', ''c'']\<rparr>]
   \<and> calls (snd (ReconcileTags okClient ''ports'' ''id-1'' [''a'', ''c''] [''b'', ''a'']))
       = [\<lparr>resourceType = ''ports'', resourceID = ''id-1'', Tags = [''a'', ''c'']\<rparr>]
   \<and> fst (ReconcileTags okClient ''ports'' ''id-1'' [''c'', ''a'', ''c''] [''a'', ''b'']) = NeedsRefresh"
proof -
  have h1: "set [''c'', ''a'', ''c''] \<noteq> set [''a'', ''b'']" by code_simp
  have h2: "set [''a'', ''c''] = set [''c'', ''a'', ''c'']" by code_simp
  have h3: "set [''b'', ''a''] = set [''a'', ''b'']" by code_simp
  have r: "replaceCall ''ports'' ''id-1'' [''c'', ''a'', ''c'']
     = \<lparr>resourceType = ''ports'', resourceID = ''id-1'', Tags = [''a'', ''c'']\<rparr>"
    by code_simp
  have k: "calls okClient = []" "respond okClient = (\<lambda>_ _. ([], None))"
    by (simp_all add: okClient_def)
  note T = C2_differ_one_sorted_call [OF h1 h2 h3, of okClient "''ports''" "''id-1''"]
  have a: "calls (snd (ReconcileTags okClient ''ports'' ''id-1'' [''c'', ''a'', ''c''] [''a'', ''b'']))
       = [\<lparr>resourceType = ''ports'', resourceID = ''id-1'', Tags = [''a'', ''c'']\<rparr>]"
    using T by (simp only: r k append_Nil)
  have b: "calls (snd (ReconcileTags okClient ''ports'' ''id-1'' [''a'', ''c''] [''b'', ''a'']))
       = [\<lparr>resourceType = ''ports'', resourceID = ''id-1'', Tags = [''a'', ''c'']\<rparr>]"
    using T by (simp only: r k append_Nil)
  have c: "fst (ReconcileTags okClient ''ports'' ''id-1'' [''c'', ''a'', ''c''] [''a'', ''b'']) = NeedsRefresh"
    using T by (simp only: k snd_conv simp_thms)
  from h1 h2 h3 a b c show ?thesis by (intro conjI)
qed

text \<open>
  C3. Two runs with no change from outside in between: when the first run finds drift
  it sends one call, and a second run on the same client, whose observed tags are the
  tags that call wrote (in any order), returns the success status and sends nothing.
  One call in total, not two.
\<close>

theorem C3_second_run_no_call:
  "set specTags \<noteq> set observedTags \<Longrightarrow>
   ReconcileTags c rt rid specTags observedTags = (st1, c1) \<Longrightarrow>
   set observedTags' = set (Tags (last (calls c1))) \<Longrightarrow>
   ReconcileTags c1 rt rid specTags observedTags' = (st2, c2) \<Longrightarrow>
   st2 = Done \<and> c2 = c1
   \<and> calls c1 = calls c @ [replaceCall rt rid specTags]
   \<and> calls c2 = calls c @ [replaceCall rt rid specTags]
   \<and> length (calls c2) = length (calls c) + 1"
proof -
  assume d: "set specTags \<noteq> set observedTags"
    and r1: "ReconcileTags c rt rid specTags observedTags = (st1, c1)"
    and ob: "set observedTags' = set (Tags (last (calls c1)))"
    and r2: "ReconcileTags c1 rt rid specTags observedTags' = (st2, c2)"
  from ReconcileTags_differ [OF d, of c rt rid] r1
  have c1: "c1 = c\<lparr>calls := calls c @ [replaceCall rt rid specTags]\<rparr>" by simp
  then have written: "Tags (last (calls c1)) = sorted_list_of_set (set specTags)"
    by (simp add: replaceCall_def)
  with ob have "set specTags = set observedTags'" by simp
  from ReconcileTags_equal [OF this, of c1 rt rid] r2
  have "st2 = Done" and "c2 = c1" by simp_all
  with c1 show ?thesis by simp
qed

theorem C3_second_run_no_call_witness:
  "set [''a'', ''c''] \<noteq> set [''a'', ''b'']
   \<and> ReconcileTags okClient ''ports'' ''id-1'' [''a'', ''c''] [''a'', ''b'']
       = (NeedsRefresh, okClient\<lparr>calls := [replaceCall ''ports'' ''id-1'' [''a'', ''c'']]\<rparr>)
   \<and> set [''a'', ''c'']
       = set (Tags (last (calls (okClient\<lparr>calls := [replaceCall ''ports'' ''id-1'' [''a'', ''c'']]\<rparr>))))
   \<and> ReconcileTags (okClient\<lparr>calls := [replaceCall ''ports'' ''id-1'' [''a'', ''c'']]\<rparr>)
         ''ports'' ''id-1'' [''a'', ''c''] [''a'', ''c'']
       = (Done, okClient\<lparr>calls := [replaceCall ''ports'' ''id-1'' [''a'', ''c'']]\<rparr>)
   \<and> length (calls (okClient\<lparr>calls := [replaceCall ''ports'' ''id-1'' [''a'', ''c'']]\<rparr>))
       = length (calls okClient) + 1"
proof -
  let ?c1 = "okClient\<lparr>calls := [replaceCall ''ports'' ''id-1'' [''a'', ''c'']]\<rparr>"
  have h1: "set [''a'', ''c''] \<noteq> set [''a'', ''b'']" by code_simp
  have k: "calls okClient = []" "respond okClient = (\<lambda>_ _. ([], None))"
    by (simp_all add: okClient_def)
  have h2: "ReconcileTags okClient ''ports'' ''id-1'' [''a'', ''c''] [''a'', ''b''] = (NeedsRefresh, ?c1)"
    using ReconcileTags_differ [OF h1, of okClient "''ports''" "''id-1''"] by (simp add: k)
  have h3: "set [''a'', ''c''] = set (Tags (last (calls ?c1)))"
    by (simp add: replaceCall_def)
  have h4: "ReconcileTags ?c1 ''ports'' ''id-1'' [''a'', ''c''] [''a'', ''c''] = (Done, ?c1)"
    by (rule ReconcileTags_equal) simp
  from C3_second_run_no_call [OF h1 h2 h3 h4]
  have "length (calls ?c1) = length (calls okClient) + 1" by blast
  with h1 h2 h3 h4 show ?thesis by (intro conjI)
qed

text \<open>
  Without drift there is nothing to write: both runs return the success status and the
  client receives no call at all.
\<close>

lemma two_runs_without_drift:
  "set specTags = set observedTags \<Longrightarrow>
   ReconcileTags (snd (ReconcileTags c rt rid specTags observedTags)) rt rid specTags observedTags
     = (Done, c)"
  by (simp add: ReconcileTags_equal)

text \<open>
  C10. When the sets differ and \<open>ReplaceAllAttributesTags\<close> answers with an error,
  \<open>ReconcileTags\<close> returns that error wrapped as status, not \<open>NeedsRefresh\<close>; and
  \<open>NeedsRefresh\<close> is returned exactly when the call was made and answered without
  error.
\<close>

theorem C10_error_is_wrapped:
  "(set specTags \<noteq> set observedTags
      \<and> snd (respond c (calls c) (replaceCall rt rid specTags)) = Some err \<longrightarrow>
    ReconcileTags c rt rid specTags observedTags
      = (WrapError err, c\<lparr>calls := calls c @ [replaceCall rt rid specTags]\<rparr>)
    \<and> fst (ReconcileTags c rt rid specTags observedTags) \<noteq> NeedsRefresh)
   \<and> ((fst (ReconcileTags c rt rid specTags observedTags) = NeedsRefresh) =
       (calls (snd (ReconcileTags c rt rid specTags observedTags))
          = calls c @ [replaceCall rt rid specTags]
        \<and> snd (respond c (calls c) (replaceCall rt rid specTags)) = None))"
proof (cases "set specTags = set observedTags")
  case True
  from ReconcileTags_equal [OF True, of c rt rid] True show ?thesis by simp
next
  case False
  from ReconcileTags_differ [OF False, of c rt rid] False show ?thesis
    by (auto simp: WrapError_def split: option.splits)
qed

theorem C10_error_is_wrapped_witness:
  "set [''a'', ''c''] \<noteq> set [''a'', ''b'']
   \<and> snd (respond failingClient (calls failingClient) (replaceCall ''ports'' ''id-1'' [''a'', ''c'']))
       = Some (errorString ''503'')
   \<and> ReconcileTags failingClient ''ports'' ''id-1'' [''a'', ''c''] [''a'', ''b'']
       = (WrapError (errorString ''503''),
          failingClient\<lparr>calls := calls failingClient @ [replaceCall ''ports'' ''id-1'' [''a'', ''c'']]\<rparr>)
   \<and> fst (ReconcileTags failingClient ''ports'' ''id-1'' [''a'', ''c''] [''a'', ''b'']) \<noteq> NeedsRefresh"
proof -
  have h1: "set [''a'', ''c''] \<noteq> set [''a'', ''b'']" by code_simp
  have h2: "snd (respond failingClient (calls failingClient) (replaceCall ''ports'' ''id-1'' [''a'', ''c'']))
       = Some (errorString ''503'')"
    by (simp add: failingClient_def)
  from C10_error_is_wrapped [of "[''a'', ''c'']" "[''a'', ''b'']" failingClient "''ports''" "''id-1''"
      "errorString ''503''"] h1 h2
  have "ReconcileTags failingClient ''ports'' ''id-1'' [''a'', ''c''] [''a'', ''b'']
       = (WrapError (errorString ''503''),
          failingClient\<lparr>calls := calls failingClient @ [replaceCall ''ports'' ''id-1'' [''a'', ''c'']]\<rparr>)
   \<and> fst (ReconcileTags failingClient ''ports'' ''id-1'' [''a'', ''c''] [''a'', ''b'']) \<noteq> NeedsRefresh"
    by blast
  with h1 h2 show ?thesis by (intro conjI) blast+
qed

section \<open>Properties of the extractors\<close>

text \<open>
  The loop that fills a slice of the right length index by index computes a \<open>map\<close>:
  after \<open>k\<close> rounds the first \<open>k\<close> slots are filled and the rest still hold the
  zero value.
\<close>

lemma fill_by_index_prefix:
  "k \<le> length xs \<Longrightarrow>
   fold (\<lambda>i acc. acc[i := f (xs ! i)]) [0..<k] (replicate (length xs) d)
     = map f (take k xs) @ replicate (length xs - k) d"
proof (induction k)
  case 0
  then show ?case by simp
next
  case (Suc k)
  then have k: "k < length xs" by simp
  have "fold (\<lambda>i acc. acc[i := f (xs ! i)]) [0..<Suc k] (replicate (length xs) d)
      = (map f (take k xs) @ replicate (length xs - k) d)[k := f (xs ! k)]"
    using Suc by simp
  also have "\<dots> = map f (take k xs) @ (replicate (length xs - k) d)[0 := f (xs ! k)]"
    using k by (simp add: list_update_append)
  also have "replicate (length xs - k) d = d # replicate (length xs - Suc k) d"
    using k by (simp add: Suc_diff_Suc flip: replicate_Suc)
  also have "map f (take k xs) @ (d # replicate (length xs - Suc k) d)[0 := f (xs ! k)]
      = map f (take (Suc k) xs) @ replicate (length xs - Suc k) d"
    using k by (simp add: take_Suc_conv_app_nth)
  finally show ?case .
qed

lemma fill_by_index:
  "fold (\<lambda>i acc. acc[i := f (xs ! i)]) [0..<length xs] (replicate (length xs) d) = map f xs"
  using fill_by_index_prefix [of "length xs" xs f d] by simp

lemma subnet_refs:
  "Resource (Spec port) = Some resource \<Longrightarrow>
   getDependencyRefs (subnetDependency fin own) port = map SubnetRef (Addresses resource)"
  by (simp add: subnetDependency_def NewDeletionGuardDependency_def fill_by_index)

lemma securityGroup_refs:
  "Resource (Spec port) = Some resource \<Longrightarrow>
   getDependencyRefs (securityGroupDependency fin own) port = SecurityGroupRefs resource"
  using fill_by_index [of "\<lambda>x. x" "SecurityGroupRefs resource" "[]"]
  by (simp add: securityGroupDependency_def NewDeletionGuardDependency_def)

text \<open>
  C8. For a Port whose \<open>Spec.Resource\<close> is \<open>nil\<close> each guarded extractor (network,
  subnet, security group, project) returns no reference, and for a Port whose
  \<open>Spec.Import\<close> is \<open>nil\<close> or whose \<open>Spec.Import.Filter\<close> is \<open>nil\<close> each import-filter
  extractor (network, project) returns no reference.
\<close>

theorem C8_nil_spec_no_refs:
  "(Resource (Spec port) = None \<longrightarrow>
      getDependencyRefs (networkDependency fin own) port = []
      \<and> getDependencyRefs (subnetDependency fin own) port = []
      \<and> getDependencyRefs (securityGroupDependency fin own) port = []
      \<and> getDependencyRefs (projectDependency fin own) port = [])
   \<and> (Import (Spec port) = None
        \<or> (\<exists>imp. Import (Spec port) = Some imp \<and> Filter imp = None) \<longrightarrow>
      getDependencyRefs networkImportDependency port = []
      \<and> getDependencyRefs projectImportDependency port = [])"
  by (auto simp: networkDependency_def subnetDependency_def securityGroupDependency_def
      projectDependency_def networkImportDependency_def projectImportDependency_def
      NewDeletionGuardDependency_def NewDependency_def)

theorem C8_nil_spec_no_refs_witness:
  "Resource (Spec importByIDPort) = None
   \<and> (\<exists>imp. Import (Spec importByIDPort) = Some imp \<and> Filter imp = None)
   \<and> Import (Spec emptyPort) = None
   \<and> getDependencyRefs (networkDependency ''f'' ''o'') importByIDPort = []
   \<and> getDependencyRefs (subnetDependency ''f'' ''o'') importByIDPort = []
   \<and> getDependencyRefs (securityGroupDependency ''f'' ''o'') importByIDPort = []
   \<and> getDependencyRefs (projectDependency ''f'' ''o'') importByIDPort = []
   \<and> getDependencyRefs networkImportDependency importByIDPort = []
   \<and> getDependencyRefs projectImportDependency importByIDPort = []
   \<and> getDependencyRefs networkImportDependency emptyPort = []
   \<and> getDependencyRefs projectImportDependency emptyPort = []"
proof -
  have h1: "Resource (Spec importByIDPort) = None" by (simp add: importByIDPort_def)
  have h2: "\<exists>imp. Import (Spec importByIDPort) = Some imp \<and> Filter imp = None"
    by (simp add: importByIDPort_def)
  have h3: "Import (Spec emptyPort) = None" by (simp add: emptyPort_def)
  from C8_nil_spec_no_refs [of importByIDPort "''f''" "''o''"] h1 h2
  have a: "getDependencyRefs (networkDependency ''f'' ''o'') importByIDPort = []
     \<and> getDependencyRefs (subnetDependency ''f'' ''o'') importByIDPort = []
     \<and> getDependencyRefs (securityGroupDependency ''f'' ''o'') importByIDPort = []
     \<and> getDependencyRefs (projectDependency ''f'' ''o'') importByIDPort = []
     \<and> getDependencyRefs networkImportDependency importByIDPort = []
     \<and> getDependencyRefs projectImportDependency importByIDPort = []"
    by blast
  from C8_nil_spec_no_refs [of emptyPort "''f''" "''o''"] h3
  have b: "getDependencyRefs networkImportDependency emptyPort = []
     \<and> getDependencyRefs projectImportDependency emptyPort = []"
    by blast
  from h1 h2 h3 a b show ?thesis by blast
qed

text \<open>
  A Port for which a relation's extractor returns nothing is never enqueued by that
  relation's handler, whatever the Target.
\<close>

lemma no_refs_never_enqueued:
  "getDependencyRefs d port = [] \<Longrightarrow> handlerRequests (HandlerFor d) [port] t = []"
  by simp

text \<open>
  C9. For a Port with a resource spec the subnet extractor returns the \<open>SubnetRef\<close> of
  each entry of \<open>Addresses\<close>, one per entry and in the same order, and the
  security-group extractor returns the entries of \<open>SecurityGroupRefs\<close>, one per entry
  and in the same order.
\<close>

theorem C9_one_ref_per_entry:
  "Resource (Spec port) = Some resource \<Longrightarrow>
   getDependencyRefs (subnetDependency fin own) port = map SubnetRef (Addresses resource)
   \<and> length (getDependencyRefs (subnetDependency fin own) port) = length (Addresses resource)
   \<and> getDependencyRefs (securityGroupDependency fin own) port = SecurityGroupRefs resource
   \<and> length (getDependencyRefs (securityGroupDependency fin own) port)
        = length (SecurityGroupRefs resource)"
  by (simp add: subnet_refs securityGroup_refs)

theorem C9_one_ref_per_entry_witness:
  "Resource (Spec samplePort) = Some
      \<lparr>NetworkRef = ''net-a'',
       Addresses = [\<lparr>SubnetRef = ''subnet-b''\<rparr>, \<lparr>SubnetRef = ''subnet-a''\<rparr>],
       SecurityGroupRefs = [''sg-2'', ''sg-1''], ProjectRef = None\<rparr>
   \<and> getDependencyRefs (subnetDependency ''f'' ''o'') samplePort = [''subnet-b'', ''subnet-a'']
   \<and> getDependencyRefs (securityGroupDependency ''f'' ''o'') samplePort = [''sg-2'', ''sg-1'']"
proof -
  have h: "Resource (Spec samplePort) = Some
      \<lparr>NetworkRef = ''net-a'',
       Addresses = [\<lparr>SubnetRef = ''subnet-b''\<rparr>, \<lparr>SubnetRef = ''subnet-a''\<rparr>],
       SecurityGroupRefs = [''sg-2'', ''sg-1''], ProjectRef = None\<rparr>"
    by (simp add: samplePort_def)
  from C9_one_ref_per_entry [OF h, of "''f''" "''o''"] h show ?thesis by simp
qed

section \<open>Properties of SetupWithManager\<close>

text \<open>
  Building a handler comes before any registration: when building the first handler
  fails, \<open>SetupWithManager\<close> returns that error and the manager is untouched.
\<close>

lemma SetupWithManager_handler_error:
  "handlerError env (networkDependency (finalizer env) (externalObjectFieldOwner env)) = Some err \<Longrightarrow>
   SetupWithManager env options mgr = (Some err, mgr)"
  by (simp add: SetupWithManager_def WatchEventHandler_def)

lemma map_filter_mem: "Some e \<in> set xs \<Longrightarrow> e \<in> set (List.map_filter id xs)"
  by (induction xs) (auto simp: List.map_filter_simps split: option.splits)

text \<open>
  C4. Registration failures are aggregated. In a run that reaches the registrations
  (every handler was built), all eight registrations run, whichever of them fail, and
  the returned error is the join of exactly the failures, in order: every relation that
  failed to register has its error in the one returned error, and the manager is the
  one left by the last registration. With no failure the result is that of \<open>Complete\<close>
  on the builder.
\<close>

theorem C4_registration_failures_joined:
  assumes "fin = finalizer env" and "own = externalObjectFieldOwner env"
    and "handlerError env (networkDependency fin own) = None"
    and "handlerError env networkImportDependency = None"
    and "handlerError env (subnetDependency fin own) = None"
    and "handlerError env (securityGroupDependency fin own) = None"
    and "handlerError env (projectDependency fin own) = None"
    and "handlerError env projectImportDependency = None"
    and "AddToManager env (networkDependency fin own) mgr = (e1, m1)"
    and "AddToManager env networkImportDependency m1 = (e2, m2)"
    and "AddToManager env (subnetDependency fin own) m2 = (e3, m3)"
    and "AddToManager env (securityGroupDependency fin own) m3 = (e4, m4)"
    and "AddToManager env (projectDependency fin own) m4 = (e5, m5)"
    and "AddToManager env projectImportDependency m5 = (e6, m6)"
    and "AddToManager env (credentialsDependency env) m6 = (e7, m7)"
    and "AddCredentialsWatch env (portControllerBuilder fin own options)
           (credentialsDependency env) = (e8, builder')"
    and "failures = List.map_filter id [e1, e2, e3, e4, e5, e6, e7, e8]"
  shows "SetupWithManager env options mgr =
           (if failures = [] then Complete env builder' m7
            else (Some (joinError failures), m7))
         \<and> (\<forall>e. Some e \<in> set [e1, e2, e3, e4, e5, e6, e7, e8] \<longrightarrow>
               e \<in> set failures
               \<and> SetupWithManager env options mgr = (Some (joinError failures), m7))"
proof -
  have run: "SetupWithManager env options mgr =
      (case errors_Join [e1, e2, e3, e4, e5, e6, e7, e8] of
         Some err \<Rightarrow> (Some err, m7)
       | None \<Rightarrow> Complete env builder' m7)"
    using assms(1-16)
    by (simp add: SetupWithManager_def WatchEventHandler_def portControllerBuilder_def)
  then have first: "SetupWithManager env options mgr =
           (if failures = [] then Complete env builder' m7
            else (Some (joinError failures), m7))"
    using assms(17) by (simp add: errors_Join_def)
  have mem: "e \<in> set failures" if "Some e \<in> set [e1, e2, e3, e4, e5, e6, e7, e8]" for e
    using that assms(17) map_filter_mem by metis
  show ?thesis
  proof (intro conjI allI impI)
    show "SetupWithManager env options mgr =
           (if failures = [] then Complete env builder' m7
            else (Some (joinError failures), m7))"
      by (rule first)
  next
    fix e assume "Some e \<in> set [e1, e2, e3, e4, e5, e6, e7, e8]"
    then show "e \<in> set failures" by (rule mem)
  next
    fix e assume "Some e \<in> set [e1, e2, e3, e4, e5, e6, e7, e8]"
    then have "e \<in> set failures" by (rule mem)
    then have "failures \<noteq> []" by auto
    with first show "SetupWithManager env options mgr = (Some (joinError failures), m7)"
      by simp
  qed
qed


theorem C4_registration_failures_joined_witness:
  "handlerError indexEnv (networkDependency (finalizer indexEnv) (externalObjectFieldOwner indexEnv)) = None
   \<and> handlerError indexEnv networkImportDependency = None
   \<and> handlerError indexEnv (subnetDependency (finalizer indexEnv) (externalObjectFieldOwner indexEnv)) = None
   \<and> handlerError indexEnv (securityGroupDependency (finalizer indexEnv) (externalObjectFieldOwner indexEnv)) = None
   \<and> handlerError indexEnv (projectDependency (finalizer indexEnv) (externalObjectFieldOwner indexEnv)) = None
   \<and> handlerError indexEnv projectImportDependency = None
   \<and> SetupWithManager indexEnv \<lparr>MaxConcurrentReconciles = 1\<rparr>
         [''spec.resource.networkRef'', ''spec.import.filter.projectRef'']
       = (Some (joinError
            [errorString ''duplicate index spec.resource.networkRef'',
             errorString ''duplicate index spec.import.filter.projectRef'']),
          [''spec.resource.networkRef'', ''spec.import.filter.projectRef'',
           ''spec.import.filter.networkRef'', ''spec.resource.addresses[].subnetRef'',
           ''spec.resource.securityGroupRefs'', ''spec.resource.projectRef'',
           ''spec.cloudCredentialsRef.secretName''])"
proof -
  let ?fin = "finalizer indexEnv" and ?own = "externalObjectFieldOwner indexEnv"
  let ?m0 = "[''spec.resource.networkRef'', ''spec.import.filter.projectRef'']"
  let ?m2 = "?m0 @ [''spec.import.filter.networkRef'']"
  let ?m3 = "?m2 @ [''spec.resource.addresses[].subnetRef'']"
  let ?m4 = "?m3 @ [''spec.resource.securityGroupRefs'']"
  let ?m5 = "?m4 @ [''spec.resource.projectRef'']"
  let ?m7 = "?m5 @ [''spec.cloudCredentialsRef.secretName'']"
  let ?opts = "\<lparr>MaxConcurrentReconciles = 1\<rparr>"
  have h: "handlerError indexEnv d = None" for d by (simp add: indexEnv_def)
  have a: "AddToManager indexEnv = registerIndex"
    and w: "AddCredentialsWatch indexEnv = (\<lambda>b _. (None, b))"
    by (simp_all add: indexEnv_def)
  have n: "indexName (networkDependency ?fin ?own) = ''spec.resource.networkRef''"
    "indexName networkImportDependency = ''spec.import.filter.networkRef''"
    "indexName (subnetDependency ?fin ?own) = ''spec.resource.addresses[].subnetRef''"
    "indexName (securityGroupDependency ?fin ?own) = ''spec.resource.securityGroupRefs''"
    "indexName (projectDependency ?fin ?own) = ''spec.resource.projectRef''"
    "indexName projectImportDependency = ''spec.import.filter.projectRef''"
    "indexName (credentialsDependency indexEnv) = ''spec.cloudCredentialsRef.secretName''"
    by (simp_all add: networkDependency_def networkImportDependency_def subnetDependency_def
        securityGroupDependency_def projectDependency_def projectImportDependency_def
        indexEnv_def NewDeletionGuardDependency_def NewDependency_def)
  have r1: "AddToManager indexEnv (networkDependency ?fin ?own) ?m0
      = (Some (errorString ''duplicate index spec.resource.networkRef''), ?m0)"
    by (simp add: a registerIndex_def n)
  have r2: "AddToManager indexEnv networkImportDependency ?m0 = (None, ?m2)"
    by (simp add: a registerIndex_def n)
  have r3: "AddToManager indexEnv (subnetDependency ?fin ?own) ?m2 = (None, ?m3)"
    by (simp add: a registerIndex_def n)
  have r4: "AddToManager indexEnv (securityGroupDependency ?fin ?own) ?m3 = (None, ?m4)"
    by (simp add: a registerIndex_def n)
  have r5: "AddToManager indexEnv (projectDependency ?fin ?own) ?m4 = (None, ?m5)"
    by (simp add: a registerIndex_def n)
  have r6: "AddToManager indexEnv projectImportDependency ?m5
      = (Some (errorString ''duplicate index spec.import.filter.projectRef''), ?m5)"
    by (simp add: a registerIndex_def n)
  have r7: "AddToManager indexEnv (credentialsDependency indexEnv) ?m5 = (None, ?m7)"
    by (simp add: a registerIndex_def n)
  have r8: "AddCredentialsWatch indexEnv (portControllerBuilder ?fin ?own ?opts)
      (credentialsDependency indexEnv) = (None, portControllerBuilder ?fin ?own ?opts)"
    by (simp add: w)
  have f: "[errorString ''duplicate index spec.resource.networkRef'',
            errorString ''duplicate index spec.import.filter.projectRef'']
      = List.map_filter id
          [Some (errorString ''duplicate index spec.resource.networkRef''), None, None, None,
           None, Some (errorString ''duplicate index spec.import.filter.projectRef''), None, None]"
    by (simp add: List.map_filter_simps)
  from C4_registration_failures_joined [OF refl refl h h h h h h r1 r2 r3 r4 r5 r6 r7 r8 f]
  have "SetupWithManager indexEnv ?opts ?m0
       = (Some (joinError
            [errorString ''duplicate index spec.resource.networkRef'',
             errorString ''duplicate index spec.import.filter.projectRef'']), ?m7)"
    by simp
  then show ?thesis by (simp add: h)
qed


section \<open>Properties of the watches\<close>

text \<open>The six watches of the builder, in the order of the \<open>Watches\<close> calls.\<close>

lemma portBuilder_watches:
  "watchesInput (portBuilder options h1 h2 h3 h4 h5 h6) =
     [\<lparr>object = NetworkKind, handler = h1, predicates = [BecameAvailable NetworkKind]\<rparr>,
      \<lparr>object = NetworkKind, handler = h2, predicates = [BecameAvailable NetworkKind]\<rparr>,
      \<lparr>object = SubnetKind, handler = h3, predicates = [BecameAvailable SubnetKind]\<rparr>,
      \<lparr>object = SecurityGroupKind, handler = h4,
        predicates = [BecameAvailable SecurityGroupKind]\<rparr>,
      \<lparr>object = ProjectKind, handler = h5, predicates = [BecameAvailable ProjectKind]\<rparr>,
      \<lparr>object = ProjectKind, handler = h6, predicates = [BecameAvailable ProjectKind]\<rparr>]"
  by (simp add: portBuilder_def Watches_def For_def WithOptions_def NewControllerManagedBy_def)

lemma relation_names:
  "indexName (networkDependency fin own) = ''spec.resource.networkRef''"
  "indexName networkImportDependency = ''spec.import.filter.networkRef''"
  "indexName (projectDependency fin own) = ''spec.resource.projectRef''"
  "indexName projectImportDependency = ''spec.import.filter.projectRef''"
  by (simp_all add: networkDependency_def networkImportDependency_def projectDependency_def
      projectImportDependency_def NewDeletionGuardDependency_def NewDependency_def)

lemma relations_differ:
  "networkDependency fin own \<noteq> networkImportDependency"
  "projectDependency fin own \<noteq> projectImportDependency"
proof -
  have "indexName (networkDependency fin own) \<noteq> indexName networkImportDependency"
    by (simp add: relation_names)
  then show "networkDependency fin own \<noteq> networkImportDependency" by metis
  have "indexName (projectDependency fin own) \<noteq> indexName projectImportDependency"
    by (simp add: relation_names)
  then show "projectDependency fin own \<noteq> projectImportDependency" by metis
qed

text \<open>
  C5. Network and Project are each referenced by a guarded direct relation and by an
  import-filter relation. The two relations of a kind have different index names, and
  the import-filter relation is built without guard tokens, so attaching or releasing
  its guard leaves any Target as it is. In every run of \<open>SetupWithManager\<close> that gets
  past building the handlers, the builder it assembles, hands to the credentials watch
  and from there to \<open>Complete\<close>, is the one that holds two watches of each of the two
  kinds, with two different handlers: the guarded relation's and the import-filter
  relation's.
\<close>

theorem C5_two_relations_two_handlers:
  "indexName (networkDependency fin own) = ''spec.resource.networkRef''
   \<and> indexName networkImportDependency = ''spec.import.filter.networkRef''
   \<and> indexName (networkDependency fin own) \<noteq> indexName networkImportDependency
   \<and> targetKind (networkDependency fin own) = NetworkKind
   \<and> targetKind networkImportDependency = NetworkKind
   \<and> indexName (projectDependency fin own) = ''spec.resource.projectRef''
   \<and> indexName projectImportDependency = ''spec.import.filter.projectRef''
   \<and> indexName (projectDependency fin own) \<noteq> indexName projectImportDependency
   \<and> targetKind (projectDependency fin own) = ProjectKind
   \<and> targetKind projectImportDependency = ProjectKind
   \<and> map handler (filter (\<lambda>w. object w = NetworkKind)
         (watchesInput (portControllerBuilder fin own options)))
       = [HandlerFor (networkDependency fin own), HandlerFor networkImportDependency]
   \<and> HandlerFor (networkDependency fin own) \<noteq> HandlerFor networkImportDependency
   \<and> map handler (filter (\<lambda>w. object w = ProjectKind)
         (watchesInput (portControllerBuilder fin own options)))
       = [HandlerFor (projectDependency fin own), HandlerFor projectImportDependency]
   \<and> HandlerFor (projectDependency fin own) \<noteq> HandlerFor projectImportDependency
   \<and> guardTokens (networkDependency fin own) = Some (fin, own)
   \<and> guardTokens (projectDependency fin own) = Some (fin, own)
   \<and> guardTokens networkImportDependency = None
   \<and> guardTokens projectImportDependency = None
   \<and> attachGuard networkImportDependency source t = t
   \<and> releaseGuard networkImportDependency source t = t
   \<and> attachGuard projectImportDependency source t = t
   \<and> releaseGuard projectImportDependency source t = t
   \<and> (fin = finalizer env \<and> own = externalObjectFieldOwner env
        \<and> handlerError env (networkDependency fin own) = None
        \<and> handlerError env networkImportDependency = None
        \<and> handlerError env (subnetDependency fin own) = None
        \<and> handlerError env (securityGroupDependency fin own) = None
        \<and> handlerError env (projectDependency fin own) = None
        \<and> handlerError env projectImportDependency = None \<longrightarrow>
      SetupWithManager env options mgr =
        (let (e1, m1) = AddToManager env (networkDependency fin own) mgr;
             (e2, m2) = AddToManager env networkImportDependency m1;
             (e3, m3) = AddToManager env (subnetDependency fin own) m2;
             (e4, m4) = AddToManager env (securityGroupDependency fin own) m3;
             (e5, m5) = AddToManager env (projectDependency fin own) m4;
             (e6, m6) = AddToManager env projectImportDependency m5;
             (e7, m7) = AddToManager env (credentialsDependency env) m6;
             (e8, builder') =
               AddCredentialsWatch env (portControllerBuilder fin own options)
                 (credentialsDependency env)
         in case errors_Join [e1, e2, e3, e4, e5, e6, e7, e8] of
              Some err \<Rightarrow> (Some err, m7)
            | None \<Rightarrow> Complete env builder' m7))"
proof -
  have kinds: "targetKind (networkDependency fin own) = NetworkKind"
    "targetKind networkImportDependency = NetworkKind"
    "targetKind (projectDependency fin own) = ProjectKind"
    "targetKind projectImportDependency = ProjectKind"
    by (simp_all add: networkDependency_def networkImportDependency_def projectDependency_def
        projectImportDependency_def NewDeletionGuardDependency_def NewDependency_def)
  have tokens: "guardTokens (networkDependency fin own) = Some (fin, own)"
    "guardTokens (projectDependency fin own) = Some (fin, own)"
    "guardTokens networkImportDependency = None"
    "guardTokens projectImportDependency = None"
    by (simp_all add: networkDependency_def networkImportDependency_def projectDependency_def
        projectImportDependency_def NewDeletionGuardDependency_def NewDependency_def)
  have watches: "map handler (filter (\<lambda>w. object w = NetworkKind)
         (watchesInput (portControllerBuilder fin own options)))
       = [HandlerFor (networkDependency fin own), HandlerFor networkImportDependency]"
    "map handler (filter (\<lambda>w. object w = ProjectKind)
         (watchesInput (portControllerBuilder fin own options)))
       = [HandlerFor (projectDependency fin own), HandlerFor projectImportDependency]"
    by (simp_all add: portControllerBuilder_def portBuilder_watches)
  have guards: "attachGuard networkImportDependency source t = t"
    "releaseGuard networkImportDependency source t = t"
    "attachGuard projectImportDependency source t = t"
    "releaseGuard projectImportDependency source t = t"
    by (simp_all add: attachGuard_def releaseGuard_def tokens)
  have facts: "indexName (networkDependency fin own) = ''spec.resource.networkRef''
   \<and> indexName networkImportDependency = ''spec.import.filter.networkRef''
   \<and> indexName (networkDependency fin own) \<noteq> indexName networkImportDependency
   \<and> targetKind (networkDependency fin own) = NetworkKind
   \<and> targetKind networkImportDependency = NetworkKind
   \<and> indexName (projectDependency fin own) = ''spec.resource.projectRef''
   \<and> indexName projectImportDependency = ''spec.import.filter.projectRef''
   \<and> indexName (projectDependency fin own) \<noteq> indexName projectImportDependency
   \<and> targetKind (projectDependency fin own) = ProjectKind
   \<and> targetKind projectImportDependency = ProjectKind
   \<and> map handler (filter (\<lambda>w. object w = NetworkKind)
         (watchesInput (portControllerBuilder fin own options)))
       = [HandlerFor (networkDependency fin own), HandlerFor networkImportDependency]
   \<and> HandlerFor (networkDependency fin own) \<noteq> HandlerFor networkImportDependency
   \<and> map handler (filter (\<lambda>w. object w = ProjectKind)
         (watchesInput (portControllerBuilder fin own options)))
       = [HandlerFor (projectDependency fin own), HandlerFor projectImportDependency]
   \<and> HandlerFor (projectDependency fin own) \<noteq> HandlerFor projectImportDependency
   \<and> guardTokens (networkDependency fin own) = Some (fin, own)
   \<and> guardTokens (projectDependency fin own) = Some (fin, own)
   \<and> guardTokens networkImportDependency = None
   \<and> guardTokens projectImportDependency = None
   \<and> attachGuard networkImportDependency source t = t
   \<and> releaseGuard networkImportDependency source t = t
   \<and> attachGuard projectImportDependency source t = t
   \<and> releaseGuard projectImportDependency source t = t"
    by (simp add: relation_names kinds tokens watches guards relations_differ)
  have run: "SetupWithManager env options mgr =
        (let (e1, m1) = AddToManager env (networkDependency fin own) mgr;
             (e2, m2) = AddToManager env networkImportDependency m1;
             (e3, m3) = AddToManager env (subnetDependency fin own) m2;
             (e4, m4) = AddToManager env (securityGroupDependency fin own) m3;
             (e5, m5) = AddToManager env (projectDependency fin own) m4;
             (e6, m6) = AddToManager env projectImportDependency m5;
             (e7, m7) = AddToManager env (credentialsDependency env) m6;
             (e8, builder') =
               AddCredentialsWatch env (portControllerBuilder fin own options)
                 (credentialsDependency env)
         in case errors_Join [e1, e2, e3, e4, e5, e6, e7, e8] of
              Some err \<Rightarrow> (Some err, m7)
            | None \<Rightarrow> Complete env builder' m7)"
    if "fin = finalizer env" "own = externalObjectFieldOwner env"
      "handlerError env (networkDependency fin own) = None"
      "handlerError env networkImportDependency = None"
      "handlerError env (subnetDependency fin own) = None"
      "handlerError env (securityGroupDependency fin own) = None"
      "handlerError env (projectDependency fin own) = None"
      "handlerError env projectImportDependency = None"
    using that
    by (simp add: SetupWithManager_def WatchEventHandler_def portControllerBuilder_def Let_def)
  from facts run show ?thesis by blast
qed

theorem C5_two_relations_two_handlers_witness:
  "handlerError recordingEnv
      (networkDependency (finalizer recordingEnv) (externalObjectFieldOwner recordingEnv)) = None
   \<and> handlerError recordingEnv networkImportDependency = None
   \<and> handlerError recordingEnv
      (subnetDependency (finalizer recordingEnv) (externalObjectFieldOwner recordingEnv)) = None
   \<and> handlerError recordingEnv
      (securityGroupDependency (finalizer recordingEnv) (externalObjectFieldOwner recordingEnv)) = None
   \<and> handlerError recordingEnv
      (projectDependency (finalizer recordingEnv) (externalObjectFieldOwner recordingEnv)) = None
   \<and> handlerError recordingEnv projectImportDependency = None
   \<and> SetupWithManager recordingEnv \<lparr>MaxConcurrentReconciles = 1\<rparr> []
       = (None, [portControllerBuilder (finalizer recordingEnv)
                   (externalObjectFieldOwner recordingEnv) \<lparr>MaxConcurrentReconciles = 1\<rparr>])
   \<and> map handler (filter (\<lambda>w. object w = NetworkKind)
         (watchesInput (hd (snd (SetupWithManager recordingEnv \<lparr>MaxConcurrentReconciles = 1\<rparr> [])))))
       = [HandlerFor (networkDependency (finalizer recordingEnv) (externalObjectFieldOwner recordingEnv)),
          HandlerFor networkImportDependency]
   \<and> map handler (filter (\<lambda>w. object w = ProjectKind)
         (watchesInput (hd (snd (SetupWithManager recordingEnv \<lparr>MaxConcurrentReconciles = 1\<rparr> [])))))
       = [HandlerFor (projectDependency (finalizer recordingEnv) (externalObjectFieldOwner recordingEnv)),
          HandlerFor projectImportDependency]
   \<and> HandlerFor (networkDependency (finalizer recordingEnv) (externalObjectFieldOwner recordingEnv))
       \<noteq> HandlerFor networkImportDependency
   \<and> HandlerFor (projectDependency (finalizer recordingEnv) (externalObjectFieldOwner recordingEnv))
       \<noteq> HandlerFor projectImportDependency"
proof -
  let ?fin = "finalizer recordingEnv" and ?own = "externalObjectFieldOwner recordingEnv"
  let ?opts = "\<lparr>MaxConcurrentReconciles = 1\<rparr>"
  have h: "handlerError recordingEnv d = None" for d by (simp add: recordingEnv_def)
  have k: "AddToManager recordingEnv = (\<lambda>_ completed. (None, completed))"
    "AddCredentialsWatch recordingEnv = (\<lambda>b _. (None, b))"
    "Complete recordingEnv = (\<lambda>b completed. (None, completed @ [b]))"
    by (simp_all add: recordingEnv_def)
  note T = C5_two_relations_two_handlers [of ?fin ?own ?opts _ _ recordingEnv "[]"]
  from T h have "SetupWithManager recordingEnv ?opts [] =
        (let (e1, m1) = AddToManager recordingEnv (networkDependency ?fin ?own) [];
             (e2, m2) = AddToManager recordingEnv networkImportDependency m1;
             (e3, m3) = AddToManager recordingEnv (subnetDependency ?fin ?own) m2;
             (e4, m4) = AddToManager recordingEnv (securityGroupDependency ?fin ?own) m3;
             (e5, m5) = AddToManager recordingEnv (projectDependency ?fin ?own) m4;
             (e6, m6) = AddToManager recordingEnv projectImportDependency m5;
             (e7, m7) = AddToManager recordingEnv (credentialsDependency recordingEnv) m6;
             (e8, builder') =
               AddCredentialsWatch recordingEnv (portControllerBuilder ?fin ?own ?opts)
                 (credentialsDependency recordingEnv)
         in case errors_Join [e1, e2, e3, e4, e5, e6, e7, e8] of
              Some err \<Rightarrow> (Some err, m7)
            | None \<Rightarrow> Complete recordingEnv builder' m7)"
    by blast
  then have run: "SetupWithManager recordingEnv ?opts []
      = (None, [portControllerBuilder ?fin ?own ?opts])"
    by (simp add: k errors_Join_def List.map_filter_simps)
  from T have w: "map handler (filter (\<lambda>w. object w = NetworkKind)
         (watchesInput (portControllerBuilder ?fin ?own ?opts)))
       = [HandlerFor (networkDependency ?fin ?own), HandlerFor networkImportDependency]"
    "map handler (filter (\<lambda>w. object w = ProjectKind)
         (watchesInput (portControllerBuilder ?fin ?own ?opts)))
       = [HandlerFor (projectDependency ?fin ?own), HandlerFor projectImportDependency]"
    "HandlerFor (networkDependency ?fin ?own) \<noteq> HandlerFor networkImportDependency"
    "HandlerFor (projectDependency ?fin ?own) \<noteq> HandlerFor projectImportDependency"
    by blast+
  from h run w show ?thesis by simp
qed

text \<open>By contrast the guarded relation does put its finalizer on the Target.\<close>

lemma guarded_relation_attaches:
  "Finalizers (attachGuard (networkDependency fin own) source t) = insert fin (Finalizers t)"
  by (simp add: attachGuard_def networkDependency_def NewDeletionGuardDependency_def)

text \<open>
  An update that is not a change of \<open>Available\<close> from not-True to True passes no watch
  of the builder.
\<close>

lemma routeUpdate_suppressed:
  "\<not> (\<not> IsAvailable objectOld \<and> IsAvailable objectNew) \<Longrightarrow>
   routeUpdate (portBuilder options h1 h2 h3 h4 h5 h6) ports objectOld objectNew = []"
  by (auto simp: routeUpdate_def portBuilder_watches)

text \<open>
  C6. Every watch the builder registers is on one of the kinds Network, Subnet,
  SecurityGroup and Project and carries the became-Available predicate of that kind, so an
  update of a Target in which \<open>Available\<close> does not go from not-True to True is
  forwarded by none of them: no ReconcileRequest for any Port results.
\<close>

theorem C6_watches_gated_by_became_available:
  "map (\<lambda>w. (object w, predicates w)) (watchesInput (portBuilder options h1 h2 h3 h4 h5 h6))
     = [(NetworkKind, [BecameAvailable NetworkKind]),
        (NetworkKind, [BecameAvailable NetworkKind]),
        (SubnetKind, [BecameAvailable SubnetKind]),
        (SecurityGroupKind, [BecameAvailable SecurityGroupKind]),
        (ProjectKind, [BecameAvailable ProjectKind]),
        (ProjectKind, [BecameAvailable ProjectKind])]
   \<and> (\<not> (\<not> IsAvailable objectOld \<and> IsAvailable objectNew) \<longrightarrow>
        routeUpdate (portBuilder options h1 h2 h3 h4 h5 h6) ports objectOld objectNew = [])"
  by (simp add: portBuilder_watches routeUpdate_suppressed)

theorem C6_watches_gated_by_became_available_witness:
  "\<not> (\<not> IsAvailable (networkTarget ''net-a'' (Some ConditionTrue))
        \<and> IsAvailable (networkTarget ''net-a'' (Some ConditionTrue)))
   \<and> routeUpdate (portControllerBuilder ''f'' ''o'' \<lparr>MaxConcurrentReconciles = 1\<rparr>)
        [samplePort, emptyPort]
        (networkTarget ''net-a'' (Some ConditionTrue)) (networkTarget ''net-a'' (Some ConditionTrue))
      = []
   \<and> \<not> (\<not> IsAvailable (networkTarget ''net-a'' None)
        \<and> IsAvailable (networkTarget ''net-a'' (Some ConditionFalse)))
   \<and> routeUpdate (portControllerBuilder ''f'' ''o'' \<lparr>MaxConcurrentReconciles = 1\<rparr>)
        [samplePort, emptyPort]
        (networkTarget ''net-a'' None) (networkTarget ''net-a'' (Some ConditionFalse))
      = []"
proof -
  have h1: "\<not> (\<not> IsAvailable (networkTarget ''net-a'' (Some ConditionTrue))
        \<and> IsAvailable (networkTarget ''net-a'' (Some ConditionTrue)))"
    by simp
  have h2: "\<not> (\<not> IsAvailable (networkTarget ''net-a'' None)
        \<and> IsAvailable (networkTarget ''net-a'' (Some ConditionFalse)))"
    by (simp add: IsAvailable_def networkTarget_def)
  note T = C6_watches_gated_by_became_available [of "\<lparr>MaxConcurrentReconciles = 1\<rparr>"
      "HandlerFor (networkDependency ''f'' ''o'')" "HandlerFor networkImportDependency"
      "HandlerFor (subnetDependency ''f'' ''o'')" "HandlerFor (securityGroupDependency ''f'' ''o'')"
      "HandlerFor (projectDependency ''f'' ''o'')" "HandlerFor projectImportDependency",
      folded portControllerBuilder_def]
  from T [of "networkTarget ''net-a'' (Some ConditionTrue)"
      "networkTarget ''net-a'' (Some ConditionTrue)" "[samplePort, emptyPort]"] h1
  have a: "routeUpdate (portControllerBuilder ''f'' ''o'' \<lparr>MaxConcurrentReconciles = 1\<rparr>)
        [samplePort, emptyPort]
        (networkTarget ''net-a'' (Some ConditionTrue)) (networkTarget ''net-a'' (Some ConditionTrue))
      = []" by blast
  from T [of "networkTarget ''net-a'' None"
      "networkTarget ''net-a'' (Some ConditionFalse)" "[samplePort, emptyPort]"] h2
  have b: "routeUpdate (portControllerBuilder ''f'' ''o'' \<lparr>MaxConcurrentReconciles = 1\<rparr>)
        [samplePort, emptyPort]
        (networkTarget ''net-a'' None) (networkTarget ''net-a'' (Some ConditionFalse))
      = []" by blast
  from h1 h2 a b show ?thesis by blast
qed


text \<open>
  The gate is not closed for good: when network \<open>net-a\<close> becomes Available, the Port
  that references it is enqueued, once, and the Port without references is not.
\<close>

lemma routeUpdate_forwards:
  "routeUpdate (portControllerBuilder ''f'' ''o'' \<lparr>MaxConcurrentReconciles = 1\<rparr>)
     [samplePort, emptyPort]
     (networkTarget ''net-a'' (Some ConditionFalse)) (networkTarget ''net-a'' (Some ConditionTrue))
   = [\<lparr>reqKind = PortKind, reqNamespace = ''default'', reqName = ''port-2''\<rparr>]"
  by (simp add: routeUpdate_def portControllerBuilder_def portBuilder_watches IsAvailable_def
      networkTarget_def samplePort_def emptyPort_def networkDependency_def
      networkImportDependency_def NewDeletionGuardDependency_def NewDependency_def)

end
